theory Spec2Isabelle
  imports Main "HOL-Library.AList"
begin

section \<open>JavaScript values and objects\<close>

text \<open>
  The service is dynamically typed: rows returned by the database driver, the user data
  handed to callers, token payloads and JSON bodies are plain objects. A value is one of
  the primitives the code handles; an object is an association list from property names to
  values, in insertion order. Strings are byte strings: a character outside ASCII is its
  UTF-8 bytes.
\<close>

datatype jsval =
    JUndefined
  | JNull
  | JBool bool
  | JNum int
  | JStr string
  | JDate int

type_synonym jsobj = "(string \<times> jsval) list"

text \<open>\<open>o.k\<close> for a property name that is not a member of \<open>Object.prototype\<close>: a missing
  property reads as \<open>undefined\<close>.\<close>

definition get :: "jsobj \<Rightarrow> string \<Rightarrow> jsval" where
  "get obj k = (case map_of obj k of None \<Rightarrow> JUndefined | Some v \<Rightarrow> v)"

text \<open>\<open>!v\<close> is \<open>\<not> truthy v\<close>.\<close>

fun truthy :: "jsval \<Rightarrow> bool" where
  "truthy JUndefined = False"
| "truthy JNull = False"
| "truthy (JBool b) = b"
| "truthy (JNum n) = (n \<noteq> 0)"
| "truthy (JStr s) = (s \<noteq> [])"
| "truthy (JDate t) = True"

text \<open>\<open>xs.includes(v)\<close> on an array of strings.\<close>

definition includes_js :: "string list \<Rightarrow> jsval \<Rightarrow> bool" where
  "includes_js xs v = (v \<in> set (map JStr xs))"

text \<open>\<open>xs.join(sep)\<close>.\<close>

fun join :: "string list \<Rightarrow> string \<Rightarrow> string" where
  "join [] sep = []"
| "join [x] sep = x"
| "join (x # y # ys) sep = x @ sep @ join (y # ys) sep"

text \<open>Exceptions carry a name (the class) and a message; the catch blocks of the service
  inspect both.\<close>

datatype exn =
    Error string
  | JsonWebTokenError string
  | TokenExpiredError string
  | NotBeforeError string

fun exn_name :: "exn \<Rightarrow> string" where
  "exn_name (Error m) = ''Error''"
| "exn_name (JsonWebTokenError m) = ''JsonWebTokenError''"
| "exn_name (TokenExpiredError m) = ''TokenExpiredError''"
| "exn_name (NotBeforeError m) = ''NotBeforeError''"

fun exn_message :: "exn \<Rightarrow> string" where
  "exn_message (Error m) = m"
| "exn_message (JsonWebTokenError m) = m"
| "exn_message (TokenExpiredError m) = m"
| "exn_message (NotBeforeError m) = m"


section \<open>Permission evaluator (\<open>validatePermissions\<close>)\<close>

text \<open>
  \<open>roleHierarchy\<close> is an object literal, so \<open>roleHierarchy[k]\<close> finds the three own
  properties and, for any other \<open>k\<close>, whatever \<open>Object.prototype\<close> holds under that name.
  An inherited member is a function (or, for \<open>__proto__\<close>, the prototype object itself):
  it is truthy, so \<open>|| 0\<close> keeps it, and \<open>>=\<close> converts it to the text its \<open>toString\<close>
  gives. A level is therefore a number or such an object, recorded by that text.
\<close>

datatype hval = Num nat | Obj string

definition roleHierarchy :: "(string \<times> nat) list" where
  "roleHierarchy = [(''presidente'', 3), (''administrador'', 2), (''arbitro'', 1)]"

definition nativeFunction :: "string \<Rightarrow> string" where
  "nativeFunction f = ''function '' @ f @ ''() { [native code] }''"

definition objectPrototype :: "(string \<times> string) list" where
  "objectPrototype =
     [(''constructor'', nativeFunction ''Object''),
      (''__defineGetter__'', nativeFunction ''__defineGetter__''),
      (''__defineSetter__'', nativeFunction ''__defineSetter__''),
      (''hasOwnProperty'', nativeFunction ''hasOwnProperty''),
      (''__lookupGetter__'', nativeFunction ''__lookupGetter__''),
      (''__lookupSetter__'', nativeFunction ''__lookupSetter__''),
      (''isPrototypeOf'', nativeFunction ''isPrototypeOf''),
      (''propertyIsEnumerable'', nativeFunction ''propertyIsEnumerable''),
      (''toString'', nativeFunction ''toString''),
      (''valueOf'', nativeFunction ''valueOf''),
      (''__proto__'', ''[object Object]''),
      (''toLocaleString'', nativeFunction ''toLocaleString'')]"

text \<open>The names \<open>Object.prototype\<close> answers to.\<close>

definition inherited :: "string list" where
  "inherited = map fst objectPrototype"

text \<open>\<open>roleHierarchy[k]\<close> for a string \<open>k\<close>; \<open>None\<close> is \<open>undefined\<close>.\<close>

definition roleHierarchy_at :: "string \<Rightarrow> hval option" where
  "roleHierarchy_at k =
     (case map_of roleHierarchy k of
        Some n \<Rightarrow> Some (Num n)
      | None \<Rightarrow> map_option Obj (map_of objectPrototype k))"

text \<open>\<open>roleHierarchy[v]\<close> for any value: a value that is not a string is converted to a
  property name (\<open>undefined\<close>, \<open>null\<close>, \<open>true\<close>, a numeral), none of which names a
  property of the object or of its prototype.\<close>

fun roleHierarchy_of :: "jsval \<Rightarrow> hval option" where
  "roleHierarchy_of (JStr k) = roleHierarchy_at k"
| "roleHierarchy_of v = None"

text \<open>\<open>x || 0\<close>.\<close>

fun or_zero :: "hval option \<Rightarrow> hval" where
  "or_zero None = Num 0"
| "or_zero (Some (Num n)) = (if n = 0 then Num 0 else Num n)"
| "or_zero (Some (Obj t)) = Obj t"

text \<open>\<open>s < t\<close> on strings: lexicographic on the code units.\<close>

fun str_lt :: "string \<Rightarrow> string \<Rightarrow> bool" where
  "str_lt [] [] = False"
| "str_lt [] (y # ys) = True"
| "str_lt (x # xs) [] = False"
| "str_lt (x # xs) (y # ys) =
     (if x = y then str_lt xs ys else (of_char x :: nat) < of_char y)"

text \<open>\<open>a >= b\<close>: two numbers compare as numbers; two objects compare by their texts; an
  object against a number converts to \<open>NaN\<close> (none of the texts above reads as a number),
  and every comparison with \<open>NaN\<close> is false.\<close>

fun js_ge :: "hval \<Rightarrow> hval \<Rightarrow> bool" where
  "js_ge (Num a) (Num b) = (b \<le> a)"
| "js_ge (Num a) (Obj t) = False"
| "js_ge (Obj s) (Num b) = False"
| "js_ge (Obj s) (Obj t) = (\<not> str_lt s t)"

definition validatePermissions :: "jsobj \<Rightarrow> string \<Rightarrow> bool" where
  "validatePermissions user requiredRole =
     (let userLevel = or_zero (roleHierarchy_of (get user ''role''));
          requiredLevel = or_zero (roleHierarchy_at requiredRole)
      in js_ge userLevel requiredLevel)"

text \<open>The level table as the specification words it: referee 1, administrator 2,
  president 3, anything else 0.\<close>

definition spec_level :: "string \<Rightarrow> nat" where
  "spec_level r =
     (if r = ''arbitro'' then 1
      else if r = ''administrador'' then 2
      else if r = ''presidente'' then 3
      else 0)"


section \<open>Authorization middleware\<close>

text \<open>
  A request carries its path parameters and, once the authentication gate has run, the
  Principal (\<open>req.user\<close>). A middleware either calls \<open>next()\<close> or answers with a status
  and a JSON body. \<open>req.params[p]\<close> is read through \<open>param\<close>: the router binds
  every path parameter to a string, and a name the route does not bind reads as
  \<open>undefined\<close>.
\<close>

record request =
  req_params :: "(string \<times> string) list"
  req_user :: "jsobj option"

datatype outcome = Next | Respond nat jsobj

definition param :: "request \<Rightarrow> string \<Rightarrow> jsval" where
  "param req p = (case map_of (req_params req) p of None \<Rightarrow> JUndefined | Some v \<Rightarrow> JStr v)"

datatype allowed = Role string | Roles "string list"

text \<open>\<open>Array.isArray(allowedRoles) ? allowedRoles : [allowedRoles]\<close>.\<close>

fun normalizeRoles :: "allowed \<Rightarrow> string list" where
  "normalizeRoles (Role r) = [r]"
| "normalizeRoles (Roles rs) = rs"

definition requireRole :: "allowed \<Rightarrow> request \<Rightarrow> outcome" where
  "requireRole allowedRoles req =
     (let roles = normalizeRoles allowedRoles in
      case req_user req of
        None \<Rightarrow>
          Respond 401
            [(''success'', JBool False),
             (''error'', JStr ''Usuario no autenticado''),
             (''message'', JStr ''Debes estar autenticado para acceder a esta ruta'')]
      | Some u \<Rightarrow>
          if \<not> includes_js roles (get u ''role'') then
            Respond 403
              [(''success'', JBool False),
               (''error'', JStr ''Permisos insuficientes''),
               (''message'', JStr (''Se requiere uno de estos roles: '' @ join roles '', ''))]
          else Next)"

definition requireSelfOrAdmin :: "string \<Rightarrow> request \<Rightarrow> outcome" where
  "requireSelfOrAdmin userIdParam req =
     (case req_user req of
        None \<Rightarrow>
          Respond 401
            [(''success'', JBool False),
             (''error'', JStr ''Usuario no autenticado'')]
      | Some u \<Rightarrow>
          (let targetUserId = param req userIdParam;
               currentUserId = get u ''id'';
               userRole = get u ''role'';
               isSelf = (targetUserId = currentUserId);
               isAdmin = includes_js [''administrador'', ''presidente''] userRole
           in if \<not> isSelf \<and> \<not> isAdmin then
                Respond 403
                  [(''success'', JBool False),
                   (''error'', JStr ''Permisos insuficientes''),
                   (''message'',
                    JStr ''Solo puedes acceder a tus propios datos o ser administrador'')]
              else Next))"


section \<open>Credential store (\<open>config/database.js\<close>)\<close>

text \<open>
  The table definition is not part of the repository; the columns are the ones the queries
  name. The key is delivered by the driver as a number (an integer column) or as a string
  (a \<open>uuid\<close>, \<open>text\<close> or \<open>bigint\<close> column). The profile columns are only passed
  through, so they hold any value. Rows are kept in the order the database returns them.
\<close>

datatype ident = IdNum int | IdStr string

fun id_js :: "ident \<Rightarrow> jsval" where
  "id_js (IdNum n) = JNum n"
| "id_js (IdStr s) = JStr s"

record user_row =
  user_id :: ident
  email :: string
  password_hash :: string
  role :: string
  first_name :: jsval
  last_name :: jsval
  phone :: jsval
  is_active :: bool
  created_at :: int
  updated_at :: int

text \<open>
  \<open>query\<close> hands the statement to the connection pool and rethrows whatever the pool
  throws. Which statements fail is part of the state of the store; the driver's error
  is an \<open>Error\<close> whose message is none of the codes the service uses internally.
\<close>

datatype stmt = SelectByEmail | SelectById | UpdateLastLogin

record database =
  users :: "user_row list"
  failing :: "stmt list"
  current_timestamp :: int

definition database_error :: exn where
  "database_error = Error ''Connection terminated unexpectedly''"

definition query :: "database \<Rightarrow> stmt \<Rightarrow> exn + unit" where
  "query db st = (if st \<in> set (failing db) then Inl database_error else Inr ())"

text \<open>The row objects the two \<open>SELECT\<close> statements produce: one property per selected
  column.\<close>

definition row_by_email :: "user_row \<Rightarrow> jsobj" where
  "row_by_email u =
     [(''id'', id_js (user_id u)),
      (''email'', JStr (email u)),
      (''password_hash'', JStr (password_hash u)),
      (''role'', JStr (role u)),
      (''first_name'', first_name u),
      (''last_name'', last_name u),
      (''phone'', phone u),
      (''is_active'', JBool (is_active u)),
      (''created_at'', JDate (created_at u))]"

definition row_by_id :: "user_row \<Rightarrow> jsobj" where
  "row_by_id u =
     [(''id'', id_js (user_id u)),
      (''email'', JStr (email u)),
      (''role'', JStr (role u)),
      (''first_name'', first_name u),
      (''last_name'', last_name u),
      (''phone'', phone u),
      (''is_active'', JBool (is_active u))]"

text \<open>\<open>WHERE email = $1 AND is_active = true\<close>, then \<open>result.rows[0] || null\<close>.\<close>

definition findUserByEmail :: "database \<Rightarrow> string \<Rightarrow> exn + jsobj option" where
  "findUserByEmail db em =
     (case query db SelectByEmail of
        Inl e \<Rightarrow> Inl e
      | Inr _ \<Rightarrow>
          (case filter (\<lambda>u. email u = em \<and> is_active u = True) (users db) of
             [] \<Rightarrow> Inr None
           | u # _ \<Rightarrow> Inr (Some (row_by_email u))))"

text \<open>\<open>WHERE id = $1 AND is_active = true\<close>. The driver sends the parameter as text and
  the database casts it to the type of the key column; here the parameter is compared with
  the key as the driver delivers it, which is the same for a parameter that is a key of the
  table, as the \<open>userId\<close> of every token the service issues is.\<close>

definition findUserById :: "database \<Rightarrow> jsval \<Rightarrow> exn + jsobj option" where
  "findUserById db userId =
     (case query db SelectById of
        Inl e \<Rightarrow> Inl e
      | Inr _ \<Rightarrow>
          (case filter (\<lambda>u. id_js (user_id u) = userId \<and> is_active u = True) (users db) of
             [] \<Rightarrow> Inr None
           | u # _ \<Rightarrow> Inr (Some (row_by_id u))))"

text \<open>\<open>UPDATE users SET updated_at = CURRENT_TIMESTAMP WHERE id = $1\<close>.\<close>

definition updateLastLogin :: "database \<Rightarrow> jsval \<Rightarrow> exn + database" where
  "updateLastLogin db userId =
     (case query db UpdateLastLogin of
        Inl e \<Rightarrow> Inl e
      | Inr _ \<Rightarrow>
          Inr (db\<lparr>users :=
                 map (\<lambda>u. if id_js (user_id u) = userId
                           then u\<lparr>updated_at := current_timestamp db\<rparr> else u)
                     (users db)\<rparr>))"


section \<open>Signed tokens (the \<open>jsonwebtoken\<close> library)\<close>

text \<open>
  Tokens are symbolic: a token is either a string that is no well-formed JWT, or a
  payload together with the key its signature was computed with. The signature validates
  against a secret exactly when that secret is the signing key.
\<close>

datatype jwt = Malformed string | Jws string jsobj

text \<open>The payload as it comes back from the token: JSON has no \<open>undefined\<close>, a property
  holding it is dropped.\<close>

definition json :: "jsobj \<Rightarrow> jsobj" where
  "json obj = filter (\<lambda>(k, v). v \<noteq> JUndefined) obj"

definition expiresIn_error :: exn where
  "expiresIn_error =
     Error ([CHR 0x22] @ ''expiresIn'' @ [CHR 0x22] @
            '' should be a number of seconds or string representing a timespan'')"

text \<open>
  \<open>jwt.sign(payload, secret, {expiresIn, issuer, audience})\<close>. The time span the library
  reads from the \<open>expiresIn\<close> string is given in seconds (\<open>None\<close>: the string is no time
  span, and the call throws). \<open>iat\<close> is \<open>payload.iat || now\<close>; \<open>exp\<close>, \<open>aud\<close> and \<open>iss\<close>
  are added, and a payload that already has \<open>aud\<close> or \<open>iss\<close> is refused.
\<close>

definition jwt_sign ::
  "int \<Rightarrow> jsobj \<Rightarrow> string \<Rightarrow> int option \<Rightarrow> string \<Rightarrow> string \<Rightarrow> exn + jwt" where
  "jwt_sign clock payload secret span issuer audience =
     (let timestamp = (if truthy (get payload ''iat'') then get payload ''iat'' else JNum clock)
      in case timestamp of
           JNum ts \<Rightarrow>
             (case span of
                None \<Rightarrow> Inl expiresIn_error
              | Some s \<Rightarrow>
                  if get payload ''aud'' \<noteq> JUndefined then
                    Inl (Error ''Bad options.audience option. The payload already has an aud property.'')
                  else if get payload ''iss'' \<noteq> JUndefined then
                    Inl (Error ''Bad options.issuer option. The payload already has an iss property.'')
                  else
                    Inr (Jws secret
                          (json (AList.update ''iss'' (JStr issuer)
                                (AList.update ''aud'' (JStr audience)
                                (AList.update ''exp'' (JNum (ts + s))
                                (AList.update ''iat'' (JNum ts) payload)))))))
         | _ \<Rightarrow> Inl (Error ''iat should be a number of seconds''))"

text \<open>
  \<open>jwt.verify(token, secret, {ignoreExpiration})\<close>: structure, signature, \<open>nbf\<close>, then
  \<open>exp\<close> unless expiry is ignored. The token is expired once the clock has reached \<open>exp\<close>.
\<close>

definition jwt_verify :: "int \<Rightarrow> jwt \<Rightarrow> string \<Rightarrow> bool \<Rightarrow> exn + jsobj" where
  "jwt_verify clock tok secret ignoreExpiration =
     (case tok of
        Malformed _ \<Rightarrow> Inl (JsonWebTokenError ''jwt malformed'')
      | Jws key payload \<Rightarrow>
          if key \<noteq> secret then Inl (JsonWebTokenError ''invalid signature'')
          else
            (case get payload ''nbf'' of
               JUndefined \<Rightarrow>
                 (if get payload ''exp'' = JUndefined \<or> ignoreExpiration then Inr payload
                  else case get payload ''exp'' of
                         JNum e \<Rightarrow>
                           if e \<le> clock then Inl (TokenExpiredError ''jwt expired'')
                           else Inr payload
                       | _ \<Rightarrow> Inl (JsonWebTokenError ''invalid exp value''))
             | JNum n \<Rightarrow>
                 if clock < n then Inl (NotBeforeError ''jwt not active'')
                 else
                   (if get payload ''exp'' = JUndefined \<or> ignoreExpiration then Inr payload
                    else case get payload ''exp'' of
                           JNum e \<Rightarrow>
                             if e \<le> clock then Inl (TokenExpiredError ''jwt expired'')
                             else Inr payload
                         | _ \<Rightarrow> Inl (JsonWebTokenError ''invalid exp value''))
             | _ \<Rightarrow> Inl (JsonWebTokenError ''invalid nbf value'')))"


section \<open>Authentication service (\<open>services/authService.js\<close>)\<close>

text \<open>
  What the service reads from outside: the two environment variables (the module throws
  while loading unless \<open>JWT_SECRET\<close> is set, so the functions only ever run with a
  non-empty secret), the time span the token library reads from \<open>JWT_EXPIRES_IN\<close>, the
  password comparison of the \<open>bcrypt\<close> library, and the clock in seconds
  (\<open>Math.floor(Date.now() / 1000)\<close>).
\<close>

record environment =
  JWT_SECRET :: string
  JWT_EXPIRES_IN :: string
  timespan :: "int option"
  bcrypt_compare :: "string \<Rightarrow> string \<Rightarrow> bool"
  now :: int

datatype result =
    LoginResult (r_success: bool) (r_user: jsobj) (r_token: jwt) (r_expiresIn: string)
  | VerifyResult (r_success: bool) (r_user: jsobj) (r_tokenValid: bool)
  | RefreshResult (r_success: bool) (r_token: jwt) (r_expiresIn: string)

text \<open>\<open>s.toLowerCase()\<close> and \<open>s.trim()\<close> on the ASCII range: the letters A to Z
  are lowered, and tab, line feed, vertical tab, form feed, carriage return and space are
  stripped. Beyond ASCII the built-ins also lower Unicode letters and strip Unicode white
  space; bytes outside ASCII are left as they are here.\<close>

definition toLowerCase :: "string \<Rightarrow> string" where
  "toLowerCase s =
     map (\<lambda>c. if 65 \<le> (of_char c :: nat) \<and> (of_char c :: nat) \<le> 90
               then char_of ((of_char c :: nat) + 32) else c) s"

definition whitespace :: "char \<Rightarrow> bool" where
  "whitespace c = ((of_char c :: nat) \<in> {9, 10, 11, 12, 13, 32})"

definition trim :: "string \<Rightarrow> string" where
  "trim s = rev (dropWhile whitespace (rev (dropWhile whitespace s)))"

text \<open>\<open>bcrypt.compare(data, hash)\<close> rejects when the hash is missing or no string.\<close>

fun compare :: "environment \<Rightarrow> string \<Rightarrow> jsval \<Rightarrow> exn + bool" where
  "compare env password (JStr h) = Inr (bcrypt_compare env password h)"
| "compare env password JUndefined = Inl (Error ''data and hash arguments required'')"
| "compare env password JNull = Inl (Error ''data and hash arguments required'')"
| "compare env password v = Inl (Error ''data must be a string or Buffer and hash must be a string'')"

definition generateJWT :: "environment \<Rightarrow> jsobj \<Rightarrow> exn + jwt" where
  "generateJWT env usr =
     (let payload =
            [(''userId'', get usr ''id''),
             (''email'', get usr ''email''),
             (''role'', get usr ''role''),
             (''refereeId'', get usr ''referee_id''),
             (''iat'', JNum (now env))]
      in jwt_sign (now env) payload (JWT_SECRET env) (timespan env)
           ''sgad-auth-service'' ''sgad-system'')"

definition msg_invalid_credentials :: string where
  "msg_invalid_credentials = ''Email o contrase'' @ [CHR 0xC3, CHR 0xB1] @ ''a incorrectos''"

definition msg_user_inactive_login :: string where
  "msg_user_inactive_login = ''Usuario inactivo. Contacta al administrador''"

definition msg_login_failed :: string where
  "msg_login_failed = ''Error al procesar el login''"

text \<open>The \<open>try\<close> block of \<open>loginUser\<close>; the store is returned as the call leaves it.\<close>

definition loginUser_try ::
  "environment \<Rightarrow> database \<Rightarrow> string \<Rightarrow> string \<Rightarrow> (exn + result) \<times> database" where
  "loginUser_try env db em password =
     (case findUserByEmail db (trim (toLowerCase em)) of
        Inl e \<Rightarrow> (Inl e, db)
      | Inr None \<Rightarrow> (Inl (Error ''INVALID_CREDENTIALS''), db)
      | Inr (Some usr) \<Rightarrow>
          (case compare env password (get usr ''password_hash'') of
             Inl e \<Rightarrow> (Inl e, db)
           | Inr isValidPassword \<Rightarrow>
               if \<not> isValidPassword then (Inl (Error ''INVALID_CREDENTIALS''), db)
               else if \<not> truthy (get usr ''is_active'') then (Inl (Error ''USER_INACTIVE''), db)
               else
                 (case updateLastLogin db (get usr ''id'') of
                    Inl e \<Rightarrow> (Inl e, db)
                  | Inr db' \<Rightarrow>
                      (case generateJWT env usr of
                         Inl e \<Rightarrow> (Inl e, db')
                       | Inr tok \<Rightarrow>
                           (Inr (LoginResult True
                                  [(''id'', get usr ''id''),
                                   (''email'', get usr ''email''),
                                   (''role'', get usr ''role''),
                                   (''firstName'', get usr ''first_name''),
                                   (''lastName'', get usr ''last_name''),
                                   (''phone'', get usr ''phone''),
                                   (''refereeId'', get usr ''referee_id''),
                                   (''licenseNumber'', get usr ''license_number''),
                                   (''specialties'', get usr ''specialties''),
                                   (''certificationLevel'', get usr ''certification_level'')]
                                  tok (JWT_EXPIRES_IN env)),
                            db')))))"

text \<open>\<open>loginUser\<close>: the \<open>catch\<close> block translates the internal codes and hides every
  other error behind one message.\<close>

definition loginUser ::
  "environment \<Rightarrow> database \<Rightarrow> string \<Rightarrow> string \<Rightarrow> (exn + result) \<times> database" where
  "loginUser env db em password =
     (case loginUser_try env db em password of
        (Inr r, db') \<Rightarrow> (Inr r, db')
      | (Inl error, db') \<Rightarrow>
          if exn_message error = ''INVALID_CREDENTIALS'' then
            (Inl (Error msg_invalid_credentials), db')
          else if exn_message error = ''USER_INACTIVE'' then
            (Inl (Error msg_user_inactive_login), db')
          else (Inl (Error msg_login_failed), db'))"

definition msg_token_invalid :: string where
  "msg_token_invalid = ''Token inv'' @ [CHR 0xC3, CHR 0xA1] @ ''lido''"

definition msg_token_expired :: string where
  "msg_token_expired = ''Token expirado''"

definition msg_user_not_found :: string where
  "msg_user_not_found = ''Usuario no encontrado''"

definition msg_user_inactive :: string where
  "msg_user_inactive = ''Usuario inactivo''"

definition msg_verify_failed :: string where
  "msg_verify_failed = ''Error al verificar el token''"

definition verifyToken_try :: "environment \<Rightarrow> database \<Rightarrow> jwt \<Rightarrow> exn + result" where
  "verifyToken_try env db tok =
     (case jwt_verify (now env) tok (JWT_SECRET env) False of
        Inl e \<Rightarrow> Inl e
      | Inr decoded \<Rightarrow>
          (case findUserById db (get decoded ''userId'') of
             Inl e \<Rightarrow> Inl e
           | Inr None \<Rightarrow> Inl (Error ''USER_NOT_FOUND'')
           | Inr (Some usr) \<Rightarrow>
               if \<not> truthy (get usr ''is_active'') then Inl (Error ''USER_INACTIVE'')
               else
                 Inr (VerifyResult True
                       [(''id'', get usr ''id''),
                        (''email'', get usr ''email''),
                        (''role'', get usr ''role''),
                        (''firstName'', get usr ''first_name''),
                        (''lastName'', get usr ''last_name''),
                        (''phone'', get usr ''phone''),
                        (''refereeId'', get usr ''referee_id''),
                        (''licenseNumber'', get usr ''license_number''),
                        (''specialties'', get usr ''specialties'')]
                       True)))"

definition verifyToken :: "environment \<Rightarrow> database \<Rightarrow> jwt \<Rightarrow> exn + result" where
  "verifyToken env db tok =
     (case verifyToken_try env db tok of
        Inr r \<Rightarrow> Inr r
      | Inl error \<Rightarrow>
          if exn_name error = ''JsonWebTokenError'' then Inl (Error msg_token_invalid)
          else if exn_name error = ''TokenExpiredError'' then Inl (Error msg_token_expired)
          else if exn_message error = ''USER_NOT_FOUND'' then Inl (Error msg_user_not_found)
          else if exn_message error = ''USER_INACTIVE'' then Inl (Error msg_user_inactive)
          else Inl (Error msg_verify_failed))"

definition msg_refresh_subject_invalid :: string where
  "msg_refresh_subject_invalid = ''Usuario no v'' @ [CHR 0xC3, CHR 0xA1] @ ''lido para refresh''"

definition msg_refresh_failed :: string where
  "msg_refresh_failed = ''Error al refrescar el token''"

definition refreshToken_try :: "environment \<Rightarrow> database \<Rightarrow> jwt \<Rightarrow> exn + result" where
  "refreshToken_try env db tok =
     (case jwt_verify (now env) tok (JWT_SECRET env) True of
        Inl e \<Rightarrow> Inl e
      | Inr decoded \<Rightarrow>
          (case findUserById db (get decoded ''userId'') of
             Inl e \<Rightarrow> Inl e
           | Inr None \<Rightarrow> Inl (Error msg_refresh_subject_invalid)
           | Inr (Some usr) \<Rightarrow>
               if \<not> truthy (get usr ''is_active'') then Inl (Error msg_refresh_subject_invalid)
               else
                 (case generateJWT env usr of
                    Inl e \<Rightarrow> Inl e
                  | Inr newToken \<Rightarrow>
                      Inr (RefreshResult True newToken (JWT_EXPIRES_IN env)))))"

definition refreshToken :: "environment \<Rightarrow> database \<Rightarrow> jwt \<Rightarrow> exn + result" where
  "refreshToken env db tok =
     (case refreshToken_try env db tok of
        Inr r \<Rightarrow> Inr r
      | Inl error \<Rightarrow> Inl (Error msg_refresh_failed))"


section \<open>What the service builds for a stored user\<close>

text \<open>The claims of the token \<open>generateJWT\<close> issues for the row \<open>u\<close> when the configured
  lifetime is \<open>s\<close> seconds, and the user data \<open>verifyToken\<close> hands out for that row.\<close>

definition issued_payload :: "environment \<Rightarrow> user_row \<Rightarrow> int \<Rightarrow> jsobj" where
  "issued_payload env u s =
     [(''userId'', id_js (user_id u)),
      (''email'', JStr (email u)),
      (''role'', JStr (role u)),
      (''iat'', JNum (now env)),
      (''exp'', JNum (now env + s)),
      (''aud'', JStr ''sgad-system''),
      (''iss'', JStr ''sgad-auth-service'')]"

definition principal_of :: "user_row \<Rightarrow> jsobj" where
  "principal_of u =
     [(''id'', id_js (user_id u)),
      (''email'', JStr (email u)),
      (''role'', JStr (role u)),
      (''firstName'', first_name u),
      (''lastName'', last_name u),
      (''phone'', phone u),
      (''refereeId'', JUndefined),
      (''licenseNumber'', JUndefined),
      (''specialties'', JUndefined)]"

text \<open>The user data \<open>loginUser\<close> hands out for the row \<open>u\<close>.\<close>

definition login_principal_of :: "user_row \<Rightarrow> jsobj" where
  "login_principal_of u =
     [(''id'', id_js (user_id u)),
      (''email'', JStr (email u)),
      (''role'', JStr (role u)),
      (''firstName'', first_name u),
      (''lastName'', last_name u),
      (''phone'', phone u),
      (''refereeId'', JUndefined),
      (''licenseNumber'', JUndefined),
      (''specialties'', JUndefined),
      (''certificationLevel'', JUndefined)]"

text \<open>The store with every stored password hash overwritten by \<open>h\<close>.\<close>

definition replace_hashes :: "string \<Rightarrow> database \<Rightarrow> database" where
  "replace_hashes h db = db\<lparr>users := map (\<lambda>u. u\<lparr>password_hash := h\<rparr>) (users db)\<rparr>"


section \<open>A running example\<close>

text \<open>
  One referee, \<open>user@sgad.com\<close> with password \<open>correct\<close>, a 24 hour lifetime, and a
  stand-in for the password hash under which a hash is the password behind a prefix.
  \<open>example_token\<close> is the token issued to that user at the example's clock;
  \<open>deactivated_db\<close> is the store after an administrator has deactivated the user.
\<close>

definition example_env :: environment where
  "example_env =
     \<lparr>JWT_SECRET = ''s3cret'', JWT_EXPIRES_IN = ''24h'', timespan = Some 86400,
      bcrypt_compare = (\<lambda>pw h. h = ''bcrypt:'' @ pw), now = 1700000000\<rparr>"

definition example_user :: user_row where
  "example_user =
     \<lparr>user_id = IdStr ''42'', email = ''user@sgad.com'', password_hash = ''bcrypt:correct'',
      role = ''arbitro'', first_name = JStr ''Ana'', last_name = JStr ''Ruiz'', phone = JNull,
      is_active = True, created_at = 1600000000, updated_at = 1600000000\<rparr>"

definition example_db :: database where
  "example_db = \<lparr>users = [example_user], failing = [], current_timestamp = 1700000000\<rparr>"

definition example_token :: jwt where
  "example_token =
     Jws ''s3cret''
       [(''userId'', JStr ''42''), (''email'', JStr ''user@sgad.com''),
        (''role'', JStr ''arbitro''), (''iat'', JNum 1700000000),
        (''exp'', JNum 1700086400), (''aud'', JStr ''sgad-system''),
        (''iss'', JStr ''sgad-auth-service'')]"

definition deactivated_db :: database where
  "deactivated_db = example_db\<lparr>users := [example_user\<lparr>is_active := False\<rparr>]\<rparr>"


section \<open>The permission evaluator\<close>

lemma or_zero_plain:
  "k \<notin> set inherited \<Longrightarrow> or_zero (roleHierarchy_at k) = Num (spec_level k)"
proof -
  assume "k \<notin> set inherited"
  then have "map_of objectPrototype k = None"
    by (simp add: inherited_def map_of_eq_None_iff)
  then show ?thesis
    by (simp add: roleHierarchy_at_def roleHierarchy_def spec_level_def)
qed

lemma or_zero_mapped:
  "k \<in> {''arbitro'', ''administrador'', ''presidente''} \<Longrightarrow>
     \<exists>n. 0 < n \<and> or_zero (roleHierarchy_at k) = Num n"
  by (auto simp: roleHierarchy_at_def roleHierarchy_def)

lemma or_zero_unmapped:
  assumes "k \<notin> {''arbitro'', ''administrador'', ''presidente''}"
  shows "or_zero (roleHierarchy_at k) = Num 0 \<or> (\<exists>t. or_zero (roleHierarchy_at k) = Obj t)"
proof (cases "map_of objectPrototype k")
  case None
  with assms show ?thesis by (simp add: roleHierarchy_at_def roleHierarchy_def)
next
  case (Some t)
  with assms show ?thesis by (simp add: roleHierarchy_at_def roleHierarchy_def)
qed

text \<open>
  C3, as the code has it. The claim reads: \<open>hasPermission\<close> maps arbitro to 1,
  administrador to 2, presidente to 3 and any other string to 0, returns true iff
  level(held) \<ge> level(required), and no unknown role is ever allowed by default.
  Two inputs contradict it. A required role that names a member of \<open>Object.prototype\<close>
  is not at level 0: a referee is refused against the required role \<open>constructor\<close>,
  although 1 \<ge> 0. And an unmapped held role is allowed as soon as the required role is
  unmapped as well (0 \<ge> 0).
\<close>

theorem validatePermissions_claim_counterexample:
  "validatePermissions [(''role'', JStr ''arbitro'')] ''constructor'' = False
   \<and> spec_level ''constructor'' \<le> spec_level ''arbitro''
   \<and> validatePermissions [(''role'', JStr ''invitado'')] ''invitado'' = True"
  by (simp add: validatePermissions_def get_def roleHierarchy_at_def roleHierarchy_def
        objectPrototype_def spec_level_def)

text \<open>
  C3, amended: for role strings that are not names of members inherited from
  \<open>Object.prototype\<close>, the evaluator returns true iff level(held) \<ge> level(required),
  with the levels of the specification's table; and a held role outside the three mapped
  roles (an inherited name included) is refused against each of the three mapped roles.
\<close>

theorem validatePermissions_levels:
  assumes "get u ''role'' = JStr held"
  shows "(held \<notin> set inherited \<and> required \<notin> set inherited \<longrightarrow>
            validatePermissions u required = (spec_level required \<le> spec_level held))
       \<and> (held \<notin> {''arbitro'', ''administrador'', ''presidente''} \<and>
          required \<in> {''arbitro'', ''administrador'', ''presidente''} \<longrightarrow>
            \<not> validatePermissions u required)"
proof (intro conjI impI)
  assume "held \<notin> set inherited \<and> required \<notin> set inherited"
  then show "validatePermissions u required = (spec_level required \<le> spec_level held)"
    using assms by (simp add: validatePermissions_def or_zero_plain)
next
  assume h: "held \<notin> {''arbitro'', ''administrador'', ''presidente''} \<and>
          required \<in> {''arbitro'', ''administrador'', ''presidente''}"
  then obtain n where n: "0 < n" "or_zero (roleHierarchy_at required) = Num n"
    using or_zero_mapped by blast
  from h have "or_zero (roleHierarchy_at held) = Num 0
      \<or> (\<exists>t. or_zero (roleHierarchy_at held) = Obj t)"
    using or_zero_unmapped by blast
  then show "\<not> validatePermissions u required"
    using assms n by (auto simp: validatePermissions_def)
qed

theorem validatePermissions_levels_witness:
  "get [(''role'', JStr ''invitado'')] ''role'' = JStr ''invitado''
   \<and> ''invitado'' \<notin> set inherited \<and> ''arbitro'' \<notin> set inherited
   \<and> ''invitado'' \<notin> {''arbitro'', ''administrador'', ''presidente''}
   \<and> ''arbitro'' \<in> {''arbitro'', ''administrador'', ''presidente''}
   \<and> validatePermissions [(''role'', JStr ''invitado'')] ''arbitro''
       = (spec_level ''arbitro'' \<le> spec_level ''invitado'')
   \<and> \<not> validatePermissions [(''role'', JStr ''invitado'')] ''arbitro''"
  using validatePermissions_levels
          [of "[(''role'', JStr ''invitado'')]" "''invitado''" "''arbitro''"]
  by (auto simp: get_def inherited_def objectPrototype_def)


section \<open>The authorization gates\<close>

text \<open>
  C5: for a request with an attached Principal, the self-or-admin gate lets the request
  through iff the Principal's id is the value of the configured path parameter or the
  Principal's role is administrador or presidente; otherwise it answers 403 with
  \<open>Permisos insuficientes\<close>. The witness runs the three scenarios of the claim: path
  \<open>userId = 42\<close> with Principal 42/arbitro (allowed), 7/arbitro (denied) and
  7/administrador (allowed).
\<close>

theorem requireSelfOrAdmin_decision:
  assumes "req_user req = Some u"
  shows "requireSelfOrAdmin p req =
     (if param req p = get u ''id''
         \<or> get u ''role'' = JStr ''administrador'' \<or> get u ''role'' = JStr ''presidente''
      then Next
      else Respond 403
             [(''success'', JBool False),
              (''error'', JStr ''Permisos insuficientes''),
              (''message'',
               JStr ''Solo puedes acceder a tus propios datos o ser administrador'')])"
  using assms by (auto simp: requireSelfOrAdmin_def includes_js_def Let_def)

theorem requireSelfOrAdmin_decision_witness:
  "requireSelfOrAdmin ''userId''
     \<lparr>req_params = [(''userId'', ''42'')],
      req_user = Some [(''id'', JStr ''42''), (''role'', JStr ''arbitro'')]\<rparr> = Next
   \<and> (\<exists>body. requireSelfOrAdmin ''userId''
         \<lparr>req_params = [(''userId'', ''42'')],
          req_user = Some [(''id'', JStr ''7''), (''role'', JStr ''arbitro'')]\<rparr>
           = Respond 403 body
        \<and> get body ''error'' = JStr ''Permisos insuficientes'')
   \<and> requireSelfOrAdmin ''userId''
     \<lparr>req_params = [(''userId'', ''42'')],
      req_user = Some [(''id'', JStr ''7''), (''role'', JStr ''administrador'')]\<rparr> = Next"
  using
    requireSelfOrAdmin_decision
      [of "\<lparr>req_params = [(''userId'', ''42'')],
            req_user = Some [(''id'', JStr ''42''), (''role'', JStr ''arbitro'')]\<rparr>"
          "[(''id'', JStr ''42''), (''role'', JStr ''arbitro'')]" "''userId''"]
    requireSelfOrAdmin_decision
      [of "\<lparr>req_params = [(''userId'', ''42'')],
            req_user = Some [(''id'', JStr ''7''), (''role'', JStr ''arbitro'')]\<rparr>"
          "[(''id'', JStr ''7''), (''role'', JStr ''arbitro'')]" "''userId''"]
    requireSelfOrAdmin_decision
      [of "\<lparr>req_params = [(''userId'', ''42'')],
            req_user = Some [(''id'', JStr ''7''), (''role'', JStr ''administrador'')]\<rparr>"
          "[(''id'', JStr ''7''), (''role'', JStr ''administrador'')]" "''userId''"]
  by (simp add: get_def param_def)

text \<open>
  C10: for a request with an attached Principal of role \<open>r\<close>, the role gate lets the
  request through iff \<open>r\<close> is literally one of the configured roles, and otherwise
  answers 403 listing them; the hierarchy plays no part. The witness is a president
  refused by a gate configured with administrador only, although the permission evaluator
  ranks the president above the administrator.
\<close>

theorem requireRole_literal_membership:
  assumes "req_user req = Some u" and "get u ''role'' = JStr r"
  shows "requireRole R req =
     (if r \<in> set (normalizeRoles R) then Next
      else Respond 403
             [(''success'', JBool False),
              (''error'', JStr ''Permisos insuficientes''),
              (''message'',
               JStr (''Se requiere uno de estos roles: '' @ join (normalizeRoles R) '', ''))])"
  using assms by (auto simp: requireRole_def includes_js_def Let_def)

theorem requireRole_literal_membership_witness:
  "requireRole (Roles [''administrador''])
      \<lparr>req_params = [],
       req_user = Some [(''id'', JStr ''1''), (''role'', JStr ''presidente'')]\<rparr>
     = Respond 403
         [(''success'', JBool False),
          (''error'', JStr ''Permisos insuficientes''),
          (''message'', JStr ''Se requiere uno de estos roles: administrador'')]
   \<and> validatePermissions [(''id'', JStr ''1''), (''role'', JStr ''presidente'')]
        ''administrador''"
  using requireRole_literal_membership
    [of "\<lparr>req_params = [],
          req_user = Some [(''id'', JStr ''1''), (''role'', JStr ''presidente'')]\<rparr>"
        "[(''id'', JStr ''1''), (''role'', JStr ''presidente'')]" "''presidente''"
        "Roles [''administrador'']"]
  by (simp add: get_def validatePermissions_def roleHierarchy_at_def roleHierarchy_def)


section \<open>Facts about the store and the token library\<close>

lemmas example_defs = example_env_def example_user_def example_db_def example_token_def
  deactivated_db_def

lemmas login_defs = loginUser_def loginUser_try_def findUserByEmail_def updateLastLogin_def
  query_def toLowerCase_def trim_def whitespace_def generateJWT_def jwt_sign_def json_def
  get_def row_by_email_def

lemmas verify_defs = verifyToken_def verifyToken_try_def findUserById_def query_def
  jwt_verify_def get_def row_by_id_def

lemmas refresh_defs = refreshToken_def refreshToken_try_def findUserById_def query_def
  jwt_verify_def get_def row_by_id_def generateJWT_def jwt_sign_def json_def

lemmas msg_defs = msg_invalid_credentials_def msg_user_inactive_login_def msg_login_failed_def
  msg_token_invalid_def msg_token_expired_def msg_user_not_found_def msg_user_inactive_def
  msg_verify_failed_def msg_refresh_subject_invalid_def msg_refresh_failed_def

lemma id_js_defined [simp]: "id_js i \<noteq> JUndefined"
  by (cases i) simp_all

lemma get_row_by_email [simp]:
  "get (row_by_email u) ''id'' = id_js (user_id u)"
  "get (row_by_email u) ''email'' = JStr (email u)"
  "get (row_by_email u) ''password_hash'' = JStr (password_hash u)"
  "get (row_by_email u) ''role'' = JStr (role u)"
  "get (row_by_email u) ''first_name'' = first_name u"
  "get (row_by_email u) ''last_name'' = last_name u"
  "get (row_by_email u) ''phone'' = phone u"
  "get (row_by_email u) ''is_active'' = JBool (is_active u)"
  "get (row_by_email u) ''referee_id'' = JUndefined"
  "get (row_by_email u) ''license_number'' = JUndefined"
  "get (row_by_email u) ''specialties'' = JUndefined"
  "get (row_by_email u) ''certification_level'' = JUndefined"
  by (simp_all add: get_def row_by_email_def)

lemma get_row_by_id [simp]:
  "get (row_by_id u) ''id'' = id_js (user_id u)"
  "get (row_by_id u) ''email'' = JStr (email u)"
  "get (row_by_id u) ''role'' = JStr (role u)"
  "get (row_by_id u) ''first_name'' = first_name u"
  "get (row_by_id u) ''last_name'' = last_name u"
  "get (row_by_id u) ''phone'' = phone u"
  "get (row_by_id u) ''is_active'' = JBool (is_active u)"
  "get (row_by_id u) ''referee_id'' = JUndefined"
  "get (row_by_id u) ''license_number'' = JUndefined"
  "get (row_by_id u) ''specialties'' = JUndefined"
  by (simp_all add: get_def row_by_id_def)

text \<open>Both lookups only ever return rows whose active flag is set.\<close>

lemma findUserByEmail_Some:
  assumes "findUserByEmail db em = Inr (Some usr)"
  shows "\<exists>u \<in> set (users db). usr = row_by_email u \<and> email u = em \<and> is_active u"
proof -
  from assms obtain u us where
    f: "filter (\<lambda>u. email u = em \<and> is_active u = True) (users db) = u # us"
    and usr: "usr = row_by_email u"
    by (auto simp: findUserByEmail_def split: sum.splits list.splits)
  have "u \<in> set (filter (\<lambda>u. email u = em \<and> is_active u = True) (users db))"
    unfolding f by simp
  with usr show ?thesis by auto
qed

lemma findUserById_Some:
  assumes "findUserById db i = Inr (Some usr)"
  shows "\<exists>u \<in> set (users db). usr = row_by_id u \<and> id_js (user_id u) = i \<and> is_active u"
proof -
  from assms obtain u us where
    f: "filter (\<lambda>u. id_js (user_id u) = i \<and> is_active u = True) (users db) = u # us"
    and usr: "usr = row_by_id u"
    by (auto simp: findUserById_def split: sum.splits list.splits)
  have "u \<in> set (filter (\<lambda>u. id_js (user_id u) = i \<and> is_active u = True) (users db))"
    unfolding f by simp
  with usr show ?thesis by auto
qed

lemma query_error: "query db st = Inl e \<Longrightarrow> e = database_error"
  by (simp add: query_def split: if_splits)

lemma findUserByEmail_error: "findUserByEmail db em = Inl e \<Longrightarrow> e = database_error"
  by (auto simp: findUserByEmail_def dest: query_error split: sum.splits list.splits)

lemma findUserById_error: "findUserById db i = Inl e \<Longrightarrow> e = database_error"
  by (auto simp: findUserById_def dest: query_error split: sum.splits list.splits)

lemma updateLastLogin_error: "updateLastLogin db i = Inl e \<Longrightarrow> e = database_error"
  by (auto simp: updateLastLogin_def dest: query_error split: sum.splits)

text \<open>Issuing a token for a row object succeeds exactly when the configured lifetime is a
  time span.\<close>

lemma generateJWT_row:
  assumes "timespan env = Some s"
    and "get usr ''id'' = id_js (user_id u)" "get usr ''email'' = JStr (email u)"
    and "get usr ''role'' = JStr (role u)" "get usr ''referee_id'' = JUndefined"
  shows "generateJWT env usr = Inr (Jws (JWT_SECRET env) (issued_payload env u s))"
  using assms
  by (simp add: generateJWT_def jwt_sign_def get_def json_def issued_payload_def Let_def)

lemma generateJWT_none:
  assumes "timespan env = None"
  shows "generateJWT env usr = Inl expiresIn_error"
  using assms
  by (simp add: generateJWT_def jwt_sign_def get_def json_def Let_def)


section \<open>Login\<close>

text \<open>
  C1. The claim: a login whose email belongs to a stored user whose password matches but
  whose active flag is false fails with AccountInactive, and InvalidCredentials is kept
  for an unknown email or a wrong password. \<open>loginUser\<close> has the branch for it
  (\<open>USER_INACTIVE\<close>, \<open>Usuario inactivo. Contacta al administrador\<close>), but
  \<open>findUserByEmail\<close> selects active rows only, so a deactivated user is not found at
  all. Evaluated on the store with the deactivated user and the right password, the login
  fails with the message of InvalidCredentials.
\<close>

theorem loginUser_deactivated_user:
  "loginUser example_env deactivated_db ''user@sgad.com'' ''correct''
     = (Inl (Error msg_invalid_credentials), deactivated_db)
   \<and> email (hd (users deactivated_db)) = ''user@sgad.com''
   \<and> \<not> is_active (hd (users deactivated_db))
   \<and> bcrypt_compare example_env ''correct'' (password_hash (hd (users deactivated_db)))
   \<and> msg_invalid_credentials \<noteq> msg_user_inactive_login"
  by (simp add: example_defs login_defs msg_defs)

text \<open>The branch is dead for every input: no login ever ends in the AccountInactive
  message.\<close>

lemma loginUser_try_never_inactive:
  "exn_message e = ''USER_INACTIVE'' \<Longrightarrow> fst (loginUser_try env db em pw) \<noteq> Inl e"
proof (cases "findUserByEmail db (trim (toLowerCase em))")
  case (Inl e')
  assume "exn_message e = ''USER_INACTIVE''"
  with Inl show ?thesis
    by (auto simp: loginUser_try_def database_error_def dest: findUserByEmail_error)
next
  case (Inr r)
  assume m: "exn_message e = ''USER_INACTIVE''"
  show ?thesis
  proof (cases r)
    case None
    with Inr m show ?thesis by (auto simp: loginUser_try_def)
  next
    case (Some usr)
    with Inr obtain u where u: "usr = row_by_email u" "is_active u"
      using findUserByEmail_Some by blast
    show ?thesis
    proof (cases "updateLastLogin db (id_js (user_id u))")
      case (Inl e')
      then have "e' = database_error" by (rule updateLastLogin_error)
      with Inl Inr Some u m show ?thesis
        by (auto simp: loginUser_try_def database_error_def)
    next
      case upd: (Inr db')
      show ?thesis
      proof (cases "timespan env")
        case None
        with upd Inr Some u m show ?thesis
          by (auto simp: loginUser_try_def generateJWT_none expiresIn_error_def)
      next
        case (Some s)
        then have "generateJWT env (row_by_email u)
            = Inr (Jws (JWT_SECRET env) (issued_payload env u s))"
          by (simp add: generateJWT_row)
        with upd Inr \<open>r = Some usr\<close> u m show ?thesis
          by (auto simp: loginUser_try_def)
      qed
    qed
  qed
qed

lemma loginUser_never_AccountInactive:
  "fst (loginUser env db em pw) \<noteq> Inl (Error msg_user_inactive_login)"
proof -
  obtain r db' where r: "loginUser_try env db em pw = (r, db')"
    by (cases "loginUser_try env db em pw")
  show ?thesis
  proof (cases r)
    case (Inl e)
    with r loginUser_try_never_inactive [of e env db em pw]
    have "exn_message e \<noteq> ''USER_INACTIVE''" by auto
    with r Inl show ?thesis
      by (simp add: loginUser_def msg_defs)
  next
    case (Inr v)
    with r show ?thesis by (simp add: loginUser_def)
  qed
qed

text \<open>
  C6: a login with an email that resolves to no stored user and a login with an email that
  resolves to a user whose password does not match end in the same result: the same error
  with the same message, the one of InvalidCredentials, and the store untouched.
\<close>

theorem loginUser_unknown_email_as_wrong_password:
  assumes "findUserByEmail db (trim (toLowerCase em1)) = Inr None"
    and "findUserByEmail db (trim (toLowerCase em2)) = Inr (Some usr)"
    and "compare env pw2 (get usr ''password_hash'') = Inr False"
  shows "loginUser env db em1 pw1 = loginUser env db em2 pw2
       \<and> loginUser env db em2 pw2 = (Inl (Error msg_invalid_credentials), db)"
  using assms by (simp add: loginUser_def loginUser_try_def)

theorem loginUser_unknown_email_as_wrong_password_witness:
  "findUserByEmail example_db (trim (toLowerCase ''nobody@sgad.com'')) = Inr None
   \<and> findUserByEmail example_db (trim (toLowerCase ''user@sgad.com''))
        = Inr (Some (row_by_email example_user))
   \<and> compare example_env ''wrong'' (get (row_by_email example_user) ''password_hash'')
        = Inr False
   \<and> loginUser example_env example_db ''nobody@sgad.com'' ''correct''
        = loginUser example_env example_db ''user@sgad.com'' ''wrong''
   \<and> loginUser example_env example_db ''user@sgad.com'' ''wrong''
        = (Inl (Error msg_invalid_credentials), example_db)"
proof -
  have a: "findUserByEmail example_db (trim (toLowerCase ''nobody@sgad.com'')) = Inr None"
    by (simp add: example_defs findUserByEmail_def query_def toLowerCase_def trim_def
          whitespace_def)
  have b: "findUserByEmail example_db (trim (toLowerCase ''user@sgad.com''))
        = Inr (Some (row_by_email example_user))"
    by (simp add: example_defs findUserByEmail_def query_def toLowerCase_def trim_def
          whitespace_def)
  have c: "compare example_env ''wrong'' (get (row_by_email example_user) ''password_hash'')
        = Inr False"
    by (simp add: example_defs)
  from a b c loginUser_unknown_email_as_wrong_password [OF a b c, of "''correct''"]
  show ?thesis by simp
qed

text \<open>
  C7, as the code has it. The claim: once lookup, password check and active check have
  succeeded, a failure to record the last login does not abort the login. \<open>loginUser\<close>
  awaits \<open>updateLastLogin\<close> inside its \<open>try\<close> block with nothing around it, so the
  failure reaches the \<open>catch\<close> block: with a store on which the update fails, the login
  of the example user with the right password ends in \<open>Error al procesar el login\<close>.
\<close>

theorem loginUser_last_login_failure_counterexample:
  "findUserByEmail (example_db\<lparr>failing := [UpdateLastLogin]\<rparr>)
        (trim (toLowerCase ''user@sgad.com''))
        = Inr (Some (row_by_email example_user))
   \<and> compare example_env ''correct'' (get (row_by_email example_user) ''password_hash'')
        = Inr True
   \<and> truthy (get (row_by_email example_user) ''is_active'')
   \<and> updateLastLogin (example_db\<lparr>failing := [UpdateLastLogin]\<rparr>) (JStr ''42'')
        = Inl database_error
   \<and> loginUser example_env (example_db\<lparr>failing := [UpdateLastLogin]\<rparr>)
        ''user@sgad.com'' ''correct''
        = (Inl (Error msg_login_failed), example_db\<lparr>failing := [UpdateLastLogin]\<rparr>)"
  by (simp add: example_defs login_defs msg_defs database_error_def)

text \<open>
  C7, amended: once lookup, password check and active check have succeeded, the login
  stands or falls with the recording of the last login. If recording fails, the login is
  aborted with the generic error \<open>Error al procesar el login\<close> and the store is left as
  it was; if recording succeeds (and the configured lifetime is a time span), the login
  returns the Principal of the user found and a token issued now, expiring one lifetime
  from now.
\<close>

theorem loginUser_last_login:
  assumes "findUserByEmail db (trim (toLowerCase em)) = Inr (Some usr)"
    and "compare env pw (get usr ''password_hash'') = Inr True"
    and "truthy (get usr ''is_active'')"
  shows "(\<forall>e. updateLastLogin db (get usr ''id'') = Inl e \<longrightarrow>
            loginUser env db em pw = (Inl (Error msg_login_failed), db))
       \<and> (\<forall>db' s. updateLastLogin db (get usr ''id'') = Inr db' \<and> timespan env = Some s \<longrightarrow>
            (\<exists>p payload.
               loginUser env db em pw
                 = (Inr (LoginResult True p (Jws (JWT_SECRET env) payload)
                          (JWT_EXPIRES_IN env)), db')
               \<and> get p ''id'' = get usr ''id'' \<and> get p ''email'' = get usr ''email''
               \<and> get p ''role'' = get usr ''role''
               \<and> get payload ''userId'' = get usr ''id''
               \<and> get payload ''role'' = get usr ''role''
               \<and> get payload ''iat'' = JNum (now env)
               \<and> get payload ''exp'' = JNum (now env + s)))"
proof (intro conjI allI impI)
  fix e assume "updateLastLogin db (get usr ''id'') = Inl e"
  moreover from this have "e = database_error" by (rule updateLastLogin_error)
  ultimately show "loginUser env db em pw = (Inl (Error msg_login_failed), db)"
    using assms by (simp add: loginUser_def loginUser_try_def database_error_def)
next
  fix db' s assume h: "updateLastLogin db (get usr ''id'') = Inr db' \<and> timespan env = Some s"
  from assms(1) obtain u where u: "usr = row_by_email u"
    using findUserByEmail_Some by blast
  have g: "generateJWT env usr = Inr (Jws (JWT_SECRET env) (issued_payload env u s))"
    using h u by (simp add: generateJWT_row)
  have "get (issued_payload env u s) ''userId'' = get usr ''id''"
       "get (issued_payload env u s) ''role'' = get usr ''role''"
       "get (issued_payload env u s) ''iat'' = JNum (now env)"
       "get (issued_payload env u s) ''exp'' = JNum (now env + s)"
    unfolding u get_row_by_email by (simp_all add: issued_payload_def get_def)
  moreover have "\<exists>p. loginUser env db em pw
                 = (Inr (LoginResult True p (Jws (JWT_SECRET env) (issued_payload env u s))
                          (JWT_EXPIRES_IN env)), db')
               \<and> get p ''id'' = get usr ''id'' \<and> get p ''email'' = get usr ''email''
               \<and> get p ''role'' = get usr ''role''"
    using assms h g by (simp add: loginUser_def loginUser_try_def get_def)
  ultimately show "\<exists>p payload.
               loginUser env db em pw
                 = (Inr (LoginResult True p (Jws (JWT_SECRET env) payload)
                          (JWT_EXPIRES_IN env)), db')
               \<and> get p ''id'' = get usr ''id'' \<and> get p ''email'' = get usr ''email''
               \<and> get p ''role'' = get usr ''role''
               \<and> get payload ''userId'' = get usr ''id''
               \<and> get payload ''role'' = get usr ''role''
               \<and> get payload ''iat'' = JNum (now env)
               \<and> get payload ''exp'' = JNum (now env + s)"
    by blast
qed

theorem loginUser_last_login_witness:
  "loginUser example_env (example_db\<lparr>failing := [UpdateLastLogin]\<rparr>)
        ''user@sgad.com'' ''correct''
        = (Inl (Error msg_login_failed), example_db\<lparr>failing := [UpdateLastLogin]\<rparr>)
   \<and> (\<exists>p payload.
         loginUser example_env example_db ''user@sgad.com'' ''correct''
           = (Inr (LoginResult True p (Jws ''s3cret'' payload) ''24h''),
              example_db\<lparr>users := [example_user\<lparr>updated_at := 1700000000\<rparr>]\<rparr>)
         \<and> get p ''id'' = JStr ''42'' \<and> get p ''email'' = JStr ''user@sgad.com''
         \<and> get p ''role'' = JStr ''arbitro''
         \<and> get payload ''userId'' = JStr ''42'' \<and> get payload ''role'' = JStr ''arbitro''
         \<and> get payload ''iat'' = JNum 1700000000
         \<and> get payload ''exp'' = JNum 1700086400)"
proof -
  let ?usr = "row_by_email example_user"
  let ?bad = "example_db\<lparr>failing := [UpdateLastLogin]\<rparr>"
  let ?db' = "example_db\<lparr>users := [example_user\<lparr>updated_at := 1700000000\<rparr>]\<rparr>"
  have f1: "findUserByEmail ?bad (trim (toLowerCase ''user@sgad.com'')) = Inr (Some ?usr)"
    by (simp add: example_defs findUserByEmail_def query_def toLowerCase_def trim_def
          whitespace_def)
  have f2: "findUserByEmail example_db (trim (toLowerCase ''user@sgad.com''))
              = Inr (Some ?usr)"
    by (simp add: example_defs findUserByEmail_def query_def toLowerCase_def trim_def
          whitespace_def)
  have c: "compare example_env ''correct'' (get ?usr ''password_hash'') = Inr True"
    by (simp add: example_defs)
  have a: "truthy (get ?usr ''is_active'')"
    by (simp add: example_defs)
  have u1: "updateLastLogin ?bad (get ?usr ''id'') = Inl database_error"
    by (simp add: example_defs updateLastLogin_def query_def)
  have u2: "updateLastLogin example_db (get ?usr ''id'') = Inr ?db'
            \<and> timespan example_env = Some 86400"
    by (simp add: example_defs updateLastLogin_def query_def)
  from loginUser_last_login [OF f1 c a] u1
  have "loginUser example_env ?bad ''user@sgad.com'' ''correct''
          = (Inl (Error msg_login_failed), ?bad)"
    by blast
  moreover from loginUser_last_login [OF f2 c a] u2
  have "\<exists>p payload.
         loginUser example_env example_db ''user@sgad.com'' ''correct''
           = (Inr (LoginResult True p (Jws (JWT_SECRET example_env) payload)
                    (JWT_EXPIRES_IN example_env)), ?db')
         \<and> get p ''id'' = get ?usr ''id'' \<and> get p ''email'' = get ?usr ''email''
         \<and> get p ''role'' = get ?usr ''role''
         \<and> get payload ''userId'' = get ?usr ''id''
         \<and> get payload ''role'' = get ?usr ''role''
         \<and> get payload ''iat'' = JNum (now example_env)
         \<and> get payload ''exp'' = JNum (now example_env + 86400)"
    by blast
  ultimately show ?thesis
    by (simp add: example_env_def example_user_def)
qed


section \<open>Token verification and refresh\<close>

text \<open>
  C2. The claim: a token validly issued to a user who has since been deactivated, and not
  yet expired, is rejected by verify as SubjectInactive, not as SubjectNotFound.
  \<open>verifyToken\<close> has the branch for it (\<open>USER_INACTIVE\<close>, \<open>Usuario inactivo\<close>), but
  \<open>findUserById\<close> selects active rows only. Evaluated one minute after issue: the token
  verifies while the user is active, and once the user is deactivated it is rejected with
  \<open>Usuario no encontrado\<close>, the message of SubjectNotFound.
\<close>

theorem verifyToken_deactivated_user:
  "generateJWT example_env (row_by_email example_user) = Inr example_token
   \<and> verifyToken (example_env\<lparr>now := 1700000060\<rparr>) example_db example_token
       = Inr (VerifyResult True (principal_of example_user) True)
   \<and> verifyToken (example_env\<lparr>now := 1700000060\<rparr>) deactivated_db example_token
       = Inl (Error msg_user_not_found)
   \<and> msg_user_not_found \<noteq> msg_user_inactive"
  by (simp add: example_defs verify_defs generateJWT_def jwt_sign_def json_def
        row_by_email_def principal_of_def msg_defs)

text \<open>The branch is dead for every input: no verification ever ends in the
  SubjectInactive message.\<close>

lemma verifyToken_try_never_inactive:
  "exn_message e = ''USER_INACTIVE'' \<Longrightarrow> verifyToken_try env db tok \<noteq> Inl e"
proof
  assume m: "exn_message e = ''USER_INACTIVE''" and v: "verifyToken_try env db tok = Inl e"
  show False
  proof (cases "jwt_verify (now env) tok (JWT_SECRET env) False")
    case (Inl e')
    with v have "e' = e" by (simp add: verifyToken_try_def)
    with Inl m show False
      by (auto simp: jwt_verify_def split: jwt.splits if_splits jsval.splits)
  next
    case (Inr decoded)
    show False
    proof (cases "findUserById db (get decoded ''userId'')")
      case (Inl e')
      then have "e' = database_error" by (rule findUserById_error)
      with Inl Inr v m show False by (auto simp: verifyToken_try_def database_error_def)
    next
      case found: (Inr r)
      show False
      proof (cases r)
        case None
        with found Inr v m show False by (auto simp: verifyToken_try_def)
      next
        case (Some usr)
        with found obtain u where "usr = row_by_id u" "is_active u"
          using findUserById_Some by blast
        with Some found Inr v show False by (simp add: verifyToken_try_def)
      qed
    qed
  qed
qed

lemma verifyToken_never_SubjectInactive:
  "verifyToken env db tok \<noteq> Inl (Error msg_user_inactive)"
proof (cases "verifyToken_try env db tok")
  case (Inl e)
  with verifyToken_try_never_inactive [of e env db tok]
  have "exn_message e \<noteq> ''USER_INACTIVE''" by auto
  with Inl show ?thesis by (simp add: verifyToken_def msg_defs)
next
  case (Inr r)
  then show ?thesis by (simp add: verifyToken_def)
qed

text \<open>
  C4. The claim: refresh accepts a validly signed token whatever its expiry, resolves the
  subject again, fails with the distinct classification SubjectInvalid exactly when the
  subject is missing or inactive, and otherwise issues a token with a fresh expiry and the
  role stored now. \<open>refreshToken\<close> does throw its own error for a
  missing or inactive subject, but inside its own \<open>try\<close> block, whose \<open>catch\<close> replaces
  every error by \<open>Error al refrescar el token\<close>. Evaluated after the example token has
  expired: a deactivated subject, a deleted subject, a malformed token and a token signed
  with another key all end in that one message.
\<close>

theorem refreshToken_subject_invalid_not_distinct:
  "refreshToken (example_env\<lparr>now := 1700090000\<rparr>) deactivated_db example_token
       = Inl (Error msg_refresh_failed)
   \<and> refreshToken (example_env\<lparr>now := 1700090000\<rparr>) (example_db\<lparr>users := []\<rparr>)
        example_token
       = Inl (Error msg_refresh_failed)
   \<and> refreshToken (example_env\<lparr>now := 1700090000\<rparr>) example_db (Malformed ''abc'')
       = Inl (Error msg_refresh_failed)
   \<and> refreshToken (example_env\<lparr>now := 1700090000\<rparr>) example_db
        (Jws ''forged'' [(''userId'', JStr ''42'')])
       = Inl (Error msg_refresh_failed)
   \<and> msg_refresh_failed \<noteq> msg_refresh_subject_invalid"
  by (simp add: example_defs refresh_defs msg_defs)

text \<open>Every failure of a refresh carries the same message; and the rest of C4 holds: a
  validly signed token, expired or not, whose subject resolves is answered with a token
  issued now for the row as stored now.\<close>

lemma refreshToken_failure:
  "refreshToken env db tok = Inl e \<Longrightarrow> e = Error msg_refresh_failed"
  by (auto simp: refreshToken_def split: sum.splits)

lemma refreshToken_renews:
  assumes "findUserById db uid = Inr (Some (row_by_id u))"
    and "timespan env = Some s"
    and "get payload ''userId'' = uid" and "get payload ''nbf'' = JUndefined"
  shows "refreshToken env db (Jws (JWT_SECRET env) payload)
     = Inr (RefreshResult True (Jws (JWT_SECRET env) (issued_payload env u s))
             (JWT_EXPIRES_IN env))"
proof -
  have "is_active u"
    using findUserById_Some [OF assms(1)] by (auto simp: row_by_id_def)
  moreover have "generateJWT env (row_by_id u)
      = Inr (Jws (JWT_SECRET env) (issued_payload env u s))"
    using assms(2) by (simp add: generateJWT_row)
  moreover have "jwt_verify (now env) (Jws (JWT_SECRET env) payload) (JWT_SECRET env) True
      = Inr payload"
    using assms(4) by (simp add: jwt_verify_def)
  ultimately show ?thesis
    using assms by (simp add: refreshToken_def refreshToken_try_def)
qed

text \<open>A token issued for a stored row verifies, before its expiry, to the user data of
  that row.\<close>

lemma verify_issued:
  assumes "findUserById db (id_js (user_id u)) = Inr (Some (row_by_id u))"
    and "t < now env + s"
  shows "verifyToken (env\<lparr>now := t\<rparr>) db (Jws (JWT_SECRET env) (issued_payload env u s))
           = Inr (VerifyResult True (principal_of u) True)"
proof -
  have "is_active u"
    using findUserById_Some [OF assms(1)] by (auto simp: row_by_id_def)
  moreover have "jwt_verify t (Jws (JWT_SECRET env) (issued_payload env u s))
        (JWT_SECRET env) False
      = Inr (issued_payload env u s)"
    using assms(2) by (simp add: jwt_verify_def issued_payload_def get_def)
  moreover have "get (issued_payload env u s) ''userId'' = id_js (user_id u)"
    by (simp add: issued_payload_def get_def)
  ultimately show ?thesis
    using assms(1) by (simp add: verifyToken_def verifyToken_try_def principal_of_def)
qed

text \<open>
  C8: for a user record that is active and resolvable by id in the store, the token issued
  for that record (for the row object of either lookup) verifies, at any clock value
  before its expiry, to a Principal with the id, email and role of the record. The round
  trip taken at once is the case \<open>t = now env\<close>, for any positive lifetime.
\<close>

theorem verifyToken_generateJWT_roundtrip:
  assumes "findUserById db (id_js (user_id u)) = Inr (Some (row_by_id u))"
    and "timespan env = Some s"
    and "t < now env + s"
    and "usr = row_by_email u \<or> usr = row_by_id u"
  shows "\<exists>tok p. generateJWT env usr = Inr tok
           \<and> verifyToken (env\<lparr>now := t\<rparr>) db tok = Inr (VerifyResult True p True)
           \<and> get p ''id'' = id_js (user_id u)
           \<and> get p ''email'' = JStr (email u)
           \<and> get p ''role'' = JStr (role u)"
proof -
  have "generateJWT env usr = Inr (Jws (JWT_SECRET env) (issued_payload env u s))"
    using assms(2,4) by (auto simp: generateJWT_row)
  moreover note verify_issued [OF assms(1,3)]
  moreover have "get (principal_of u) ''id'' = id_js (user_id u)"
      "get (principal_of u) ''email'' = JStr (email u)"
      "get (principal_of u) ''role'' = JStr (role u)"
    by (simp_all add: principal_of_def get_def)
  ultimately show ?thesis by blast
qed

theorem verifyToken_generateJWT_roundtrip_witness:
  "findUserById example_db (id_js (user_id example_user))
     = Inr (Some (row_by_id example_user))
   \<and> timespan example_env = Some 86400
   \<and> now example_env < now example_env + 86400
   \<and> (\<exists>tok p. generateJWT example_env (row_by_email example_user) = Inr tok
           \<and> verifyToken example_env example_db tok = Inr (VerifyResult True p True)
           \<and> get p ''id'' = JStr ''42''
           \<and> get p ''email'' = JStr ''user@sgad.com''
           \<and> get p ''role'' = JStr ''arbitro'')"
proof -
  have a: "findUserById example_db (id_js (user_id example_user))
             = Inr (Some (row_by_id example_user))"
    by (simp add: example_defs findUserById_def query_def)
  have b: "timespan example_env = Some 86400" by (simp add: example_env_def)
  have c: "now example_env < now example_env + 86400" by simp
  have d: "row_by_email example_user = row_by_email example_user
           \<or> row_by_email example_user = row_by_id example_user" by simp
  have e: "example_env\<lparr>now := now example_env\<rparr> = example_env" by simp
  from verifyToken_generateJWT_roundtrip [OF a b c d] a b c
  show ?thesis unfolding e by (simp add: example_user_def)
qed


section \<open>What leaves the service\<close>

text \<open>Overwriting the stored hashes changes no lookup by id, and changes a lookup by
  email and an update only in the hash column.\<close>

lemma query_replace_hashes [simp]: "query (replace_hashes h db) st = query db st"
  by (simp add: query_def replace_hashes_def)

lemma row_by_id_replace [simp]: "row_by_id (u\<lparr>password_hash := h\<rparr>) = row_by_id u"
  by (simp add: row_by_id_def)

lemma findUserById_replace_hashes [simp]:
  "findUserById (replace_hashes h db) i = findUserById db i"
proof -
  let ?P = "\<lambda>u. id_js (user_id u) = i \<and> is_active u = True"
  let ?f = "\<lambda>u::user_row. u\<lparr>password_hash := h\<rparr>"
  have "filter ?P (map ?f (users db)) = map ?f (filter ?P (users db))"
    by (simp add: filter_map comp_def)
  then have "filter ?P (users (replace_hashes h db)) = map ?f (filter ?P (users db))"
    by (simp add: replace_hashes_def)
  then show ?thesis
    by (cases "filter ?P (users db)") (simp_all add: findUserById_def split: sum.splits)
qed

lemma findUserByEmail_replace_hashes:
  assumes "findUserByEmail db em = Inr (Some usr)"
  shows "\<exists>u \<in> set (users db). usr = row_by_email u \<and> is_active u
           \<and> findUserByEmail (replace_hashes h db) em
                = Inr (Some (row_by_email (u\<lparr>password_hash := h\<rparr>)))"
proof -
  let ?P = "\<lambda>u. email u = em \<and> is_active u = True"
  let ?f = "\<lambda>u::user_row. u\<lparr>password_hash := h\<rparr>"
  from assms obtain u us where
    f: "filter ?P (users db) = u # us" and usr: "usr = row_by_email u"
    and q: "query db SelectByEmail = Inr ()"
    by (auto simp: findUserByEmail_def split: sum.splits list.splits)
  have "u \<in> set (filter ?P (users db))" unfolding f by simp
  then have u: "u \<in> set (users db)" "is_active u" by auto
  have "filter ?P (users (replace_hashes h db)) = map ?f (filter ?P (users db))"
    by (simp add: replace_hashes_def filter_map comp_def)
  also have "\<dots> = ?f u # map ?f us"
    by (simp only: f list.map)
  finally have "filter ?P (users (replace_hashes h db)) = ?f u # map ?f us" .
  then have "findUserByEmail (replace_hashes h db) em = Inr (Some (row_by_email (?f u)))"
    using q by (simp add: findUserByEmail_def)
  with u usr show ?thesis by blast
qed

lemma updateLastLogin_replace_hashes:
  assumes "updateLastLogin db i = Inr db'"
  shows "updateLastLogin (replace_hashes h db) i = Inr (replace_hashes h db')"
proof -
  from assms have q: "query db UpdateLastLogin = Inr ()"
    and db': "db' = db\<lparr>users :=
                 map (\<lambda>u. if id_js (user_id u) = i
                           then u\<lparr>updated_at := current_timestamp db\<rparr> else u)
                     (users db)\<rparr>"
    by (auto simp: updateLastLogin_def split: sum.splits)
  have "map (\<lambda>u. if id_js (user_id u) = i
                 then u\<lparr>updated_at := current_timestamp db\<rparr> else u)
            (map (\<lambda>u. u\<lparr>password_hash := h\<rparr>) (users db))
        = map (\<lambda>u. u\<lparr>password_hash := h\<rparr>)
            (map (\<lambda>u. if id_js (user_id u) = i
                      then u\<lparr>updated_at := current_timestamp db\<rparr> else u)
                 (users db))"
    by (induction "users db") (simp_all add: comp_def)
  then show ?thesis
    using q unfolding db' by (simp add: updateLastLogin_def replace_hashes_def query_def)
qed

text \<open>A token depends on the key, the email and the role of the row it is issued for,
  and on nothing else of the row.\<close>

lemma id_js_inj: "id_js a = id_js b \<Longrightarrow> a = b"
  by (cases a; cases b) simp_all

lemma generateJWT_bcrypt [simp]:
  "generateJWT (env\<lparr>bcrypt_compare := c\<rparr>) usr = generateJWT env usr"
  by (simp add: generateJWT_def)

lemma issued_payload_indep [simp]:
  "issued_payload (env\<lparr>bcrypt_compare := c\<rparr>) u s = issued_payload env u s"
  "issued_payload env (u\<lparr>password_hash := h\<rparr>) s = issued_payload env u s"
  by (simp_all add: issued_payload_def)

text \<open>What a successful login, verification and refresh return, value by value.\<close>

lemma loginUser_Inr:
  assumes "loginUser env db em pw = (Inr r, db')"
  shows "\<exists>u \<in> set (users db). \<exists>s.
            findUserByEmail db (trim (toLowerCase em)) = Inr (Some (row_by_email u))
          \<and> updateLastLogin db (id_js (user_id u)) = Inr db'
          \<and> timespan env = Some s
          \<and> r = LoginResult True (login_principal_of u)
                   (Jws (JWT_SECRET env) (issued_payload env u s)) (JWT_EXPIRES_IN env)"
proof -
  from assms obtain usr tok where
        f: "findUserByEmail db (trim (toLowerCase em)) = Inr (Some usr)"
    and upd: "updateLastLogin db (get usr ''id'') = Inr db'"
    and g: "generateJWT env usr = Inr tok"
    and r: "r = LoginResult True
                  [(''id'', get usr ''id''),
                   (''email'', get usr ''email''),
                   (''role'', get usr ''role''),
                   (''firstName'', get usr ''first_name''),
                   (''lastName'', get usr ''last_name''),
                   (''phone'', get usr ''phone''),
                   (''refereeId'', get usr ''referee_id''),
                   (''licenseNumber'', get usr ''license_number''),
                   (''specialties'', get usr ''specialties''),
                   (''certificationLevel'', get usr ''certification_level'')]
                  tok (JWT_EXPIRES_IN env)"
    by (auto simp: loginUser_def loginUser_try_def
          split: sum.splits option.splits if_splits prod.splits)
  from f obtain u where u: "u \<in> set (users db)" "usr = row_by_email u"
    using findUserByEmail_Some by blast
  obtain s where s: "timespan env = Some s"
    using g generateJWT_none [of env usr] by (cases "timespan env") auto
  have "generateJWT env usr = Inr (Jws (JWT_SECRET env) (issued_payload env u s))"
    using s u by (simp add: generateJWT_row)
  with g have tok: "tok = Jws (JWT_SECRET env) (issued_payload env u s)" by simp
  from r u tok have "r = LoginResult True (login_principal_of u)
                   (Jws (JWT_SECRET env) (issued_payload env u s)) (JWT_EXPIRES_IN env)"
    by (simp add: login_principal_of_def)
  with f upd s u show ?thesis by auto
qed

text \<open>The result of a successful login does not depend on the stored hashes, once the
  password comparison is taken to succeed.\<close>

lemma loginUser_replace_hashes:
  assumes "loginUser env db em pw = (Inr r, db')"
  shows "loginUser (env\<lparr>bcrypt_compare := \<lambda>p x. True\<rparr>) (replace_hashes h db) em pw
           = (Inr r, replace_hashes h db')"
proof -
  from loginUser_Inr [OF assms] obtain u s where
        f: "findUserByEmail db (trim (toLowerCase em)) = Inr (Some (row_by_email u))"
    and upd: "updateLastLogin db (id_js (user_id u)) = Inr db'"
    and s: "timespan env = Some s"
    and r: "r = LoginResult True (login_principal_of u)
                   (Jws (JWT_SECRET env) (issued_payload env u s)) (JWT_EXPIRES_IN env)"
    by blast
  from findUserByEmail_replace_hashes [OF f, of h] obtain u' where
        u': "row_by_email u = row_by_email u'" "is_active u'"
    and f': "findUserByEmail (replace_hashes h db) (trim (toLowerCase em))
               = Inr (Some (row_by_email (u'\<lparr>password_hash := h\<rparr>)))"
    by blast
  let ?v = "u'\<lparr>password_hash := h\<rparr>"
  let ?env = "env\<lparr>bcrypt_compare := \<lambda>p x. True\<rparr>"
  from u'(1) have eq: "user_id u' = user_id u" "email u' = email u" "role u' = role u"
      "first_name u' = first_name u" "last_name u' = last_name u" "phone u' = phone u"
    by (auto simp: row_by_email_def dest: id_js_inj)
  have g: "generateJWT ?env (row_by_email ?v)
             = Inr (Jws (JWT_SECRET env) (issued_payload env u s))"
    using s eq by (simp add: generateJWT_row [where u = u and s = s])
  have upd': "updateLastLogin (replace_hashes h db) (id_js (user_id u))
               = Inr (replace_hashes h db')"
    using upd by (rule updateLastLogin_replace_hashes)
  show ?thesis
    using f' g upd' u'(2) eq r
    by (simp add: loginUser_def loginUser_try_def login_principal_of_def)
qed

lemma verifyToken_Inr:
  assumes "verifyToken env db tok = Inr r"
  shows "\<exists>u \<in> set (users db). r = VerifyResult True (principal_of u) True"
proof -
  from assms obtain usr decoded where
        f: "findUserById db (get decoded ''userId'') = Inr (Some usr)"
    and r: "r = VerifyResult True
                       [(''id'', get usr ''id''),
                        (''email'', get usr ''email''),
                        (''role'', get usr ''role''),
                        (''firstName'', get usr ''first_name''),
                        (''lastName'', get usr ''last_name''),
                        (''phone'', get usr ''phone''),
                        (''refereeId'', get usr ''referee_id''),
                        (''licenseNumber'', get usr ''license_number''),
                        (''specialties'', get usr ''specialties'')]
                       True"
    by (auto simp: verifyToken_def verifyToken_try_def
          split: sum.splits option.splits if_splits)
  from f obtain u where "u \<in> set (users db)" "usr = row_by_id u"
    using findUserById_Some by blast
  with r show ?thesis by (auto simp: principal_of_def)
qed

lemma refreshToken_Inr:
  assumes "refreshToken env db tok = Inr r"
  shows "\<exists>u \<in> set (users db). \<exists>s.
           r = RefreshResult True (Jws (JWT_SECRET env) (issued_payload env u s))
                 (JWT_EXPIRES_IN env)"
proof -
  from assms obtain usr newToken decoded where
        r: "r = RefreshResult True newToken (JWT_EXPIRES_IN env)"
    and g: "generateJWT env usr = Inr newToken"
    and f: "findUserById db (get decoded ''userId'') = Inr (Some usr)"
    by (auto simp: refreshToken_def refreshToken_try_def
          split: sum.splits option.splits if_splits)
  from f obtain u where u: "u \<in> set (users db)" "usr = row_by_id u"
    using findUserById_Some by blast
  obtain s where s: "timespan env = Some s"
    using g generateJWT_none [of env usr] by (cases "timespan env") auto
  have "generateJWT env usr = Inr (Jws (JWT_SECRET env) (issued_payload env u s))"
    using s u by (simp add: generateJWT_row)
  with g r u show ?thesis by auto
qed

lemma verifyToken_replace_hashes:
  "verifyToken env (replace_hashes h db) tok = verifyToken env db tok"
  by (simp add: verifyToken_def verifyToken_try_def cong: sum.case_cong)

lemma refreshToken_replace_hashes:
  "refreshToken env (replace_hashes h db) tok = refreshToken env db tok"
  by (simp add: refreshToken_def refreshToken_try_def cong: sum.case_cong)

text \<open>
  C9: the stored password hash is in no output. The user object of every successful login
  and of every successful verification is, value by value, the key, email, role, names and
  phone of a stored row and nothing else; the token of a login or a refresh carries the
  key, email and role of that row, the two time stamps, the audience and the issuer. None
  of their properties is named \<open>password_hash\<close>. And the outputs do not depend on the
  stored hashes: with every hash in the store overwritten by an arbitrary string (and, for
  a login, the password comparison taken to succeed), the same call returns the same
  result.
\<close>

theorem no_password_hash_in_output:
  "(loginUser env db em pw = (Inr r, db') \<longrightarrow>
      (\<exists>u \<in> set (users db). \<exists>s.
          r = LoginResult True (login_principal_of u)
                (Jws (JWT_SECRET env) (issued_payload env u s)) (JWT_EXPIRES_IN env))
      \<and> loginUser (env\<lparr>bcrypt_compare := \<lambda>p x. True\<rparr>) (replace_hashes h db) em pw
            = (Inr r, replace_hashes h db')
      \<and> map fst (r_user r) = [''id'', ''email'', ''role'', ''firstName'', ''lastName'', ''phone'',
                            ''refereeId'', ''licenseNumber'', ''specialties'',
                            ''certificationLevel'']
      \<and> ''password_hash'' \<notin> set (map fst (r_user r))
      \<and> (\<exists>payload. r_token r = Jws (JWT_SECRET env) payload
            \<and> ''password_hash'' \<notin> set (map fst payload)))
   \<and> (verifyToken env db tok = Inr r' \<longrightarrow>
      (\<exists>u \<in> set (users db). r' = VerifyResult True (principal_of u) True)
      \<and> verifyToken env (replace_hashes h db) tok = Inr r'
      \<and> map fst (r_user r') = [''id'', ''email'', ''role'', ''firstName'', ''lastName'', ''phone'',
                             ''refereeId'', ''licenseNumber'', ''specialties'']
      \<and> ''password_hash'' \<notin> set (map fst (r_user r')))
   \<and> (refreshToken env db tok = Inr r'' \<longrightarrow>
      (\<exists>u \<in> set (users db). \<exists>s.
          r'' = RefreshResult True (Jws (JWT_SECRET env) (issued_payload env u s))
                  (JWT_EXPIRES_IN env))
      \<and> refreshToken env (replace_hashes h db) tok = Inr r''
      \<and> (\<exists>payload. r_token r'' = Jws (JWT_SECRET env) payload
            \<and> ''password_hash'' \<notin> set (map fst payload)))"
proof (intro conjI impI)
  assume l: "loginUser env db em pw = (Inr r, db')"
  from loginUser_Inr [OF l] obtain u s where u: "u \<in> set (users db)"
    and r: "r = LoginResult True (login_principal_of u)
                (Jws (JWT_SECRET env) (issued_payload env u s)) (JWT_EXPIRES_IN env)"
    by blast
  from u r show "\<exists>u \<in> set (users db). \<exists>s.
          r = LoginResult True (login_principal_of u)
                (Jws (JWT_SECRET env) (issued_payload env u s)) (JWT_EXPIRES_IN env)"
    by blast
  from l show "loginUser (env\<lparr>bcrypt_compare := \<lambda>p x. True\<rparr>) (replace_hashes h db) em pw
            = (Inr r, replace_hashes h db')"
    by (rule loginUser_replace_hashes)
  from r show "map fst (r_user r)
      = [''id'', ''email'', ''role'', ''firstName'', ''lastName'', ''phone'',
         ''refereeId'', ''licenseNumber'', ''specialties'', ''certificationLevel'']"
    by (simp add: login_principal_of_def)
  from r show "''password_hash'' \<notin> set (map fst (r_user r))"
    by (simp add: login_principal_of_def)
  from r show "\<exists>payload. r_token r = Jws (JWT_SECRET env) payload
            \<and> ''password_hash'' \<notin> set (map fst payload)"
    by (simp add: issued_payload_def)
next
  assume v: "verifyToken env db tok = Inr r'"
  from verifyToken_Inr [OF v] obtain u where u: "u \<in> set (users db)"
    and r: "r' = VerifyResult True (principal_of u) True"
    by blast
  from u r show "\<exists>u \<in> set (users db). r' = VerifyResult True (principal_of u) True"
    by blast
  from v show "verifyToken env (replace_hashes h db) tok = Inr r'"
    by (simp add: verifyToken_replace_hashes)
  from r show "map fst (r_user r')
      = [''id'', ''email'', ''role'', ''firstName'', ''lastName'', ''phone'',
         ''refereeId'', ''licenseNumber'', ''specialties'']"
    by (simp add: principal_of_def)
  from r show "''password_hash'' \<notin> set (map fst (r_user r'))"
    by (simp add: principal_of_def)
next
  assume f: "refreshToken env db tok = Inr r''"
  from refreshToken_Inr [OF f] obtain u s where u: "u \<in> set (users db)"
    and r: "r'' = RefreshResult True (Jws (JWT_SECRET env) (issued_payload env u s))
                  (JWT_EXPIRES_IN env)"
    by blast
  from u r show "\<exists>u \<in> set (users db). \<exists>s.
          r'' = RefreshResult True (Jws (JWT_SECRET env) (issued_payload env u s))
                  (JWT_EXPIRES_IN env)"
    by blast
  from f show "refreshToken env (replace_hashes h db) tok = Inr r''"
    by (simp add: refreshToken_replace_hashes)
  from r show "\<exists>payload. r_token r'' = Jws (JWT_SECRET env) payload
            \<and> ''password_hash'' \<notin> set (map fst payload)"
    by (simp add: issued_payload_def)
qed

theorem no_password_hash_in_output_witness:
  "loginUser example_env example_db ''user@sgad.com'' ''correct''
     = (Inr (LoginResult True (login_principal_of example_user) example_token ''24h''),
        example_db\<lparr>users := [example_user\<lparr>updated_at := 1700000000\<rparr>]\<rparr>)
   \<and> loginUser (example_env\<lparr>bcrypt_compare := \<lambda>p x. True\<rparr>)
        (replace_hashes ''redacted'' example_db) ''user@sgad.com'' ''correct''
     = (Inr (LoginResult True (login_principal_of example_user) example_token ''24h''),
        replace_hashes ''redacted''
          (example_db\<lparr>users := [example_user\<lparr>updated_at := 1700000000\<rparr>]\<rparr>))
   \<and> JStr (password_hash example_user) \<notin> snd ` set (login_principal_of example_user)
   \<and> verifyToken example_env example_db example_token
     = Inr (VerifyResult True (principal_of example_user) True)
   \<and> verifyToken example_env (replace_hashes ''redacted'' example_db) example_token
     = Inr (VerifyResult True (principal_of example_user) True)
   \<and> ''password_hash'' \<notin> set (map fst (principal_of example_user))
   \<and> (\<exists>payload. example_token = Jws ''s3cret'' payload
         \<and> ''password_hash'' \<notin> set (map fst payload))
   \<and> refreshToken example_env example_db example_token
     = Inr (RefreshResult True example_token ''24h'')
   \<and> refreshToken example_env (replace_hashes ''redacted'' example_db) example_token
     = Inr (RefreshResult True example_token ''24h'')"
proof -
  let ?r = "LoginResult True (login_principal_of example_user) example_token ''24h''"
  let ?db' = "example_db\<lparr>users := [example_user\<lparr>updated_at := 1700000000\<rparr>]\<rparr>"
  let ?r' = "VerifyResult True (principal_of example_user) True"
  let ?r'' = "RefreshResult True example_token ''24h''"
  have l: "loginUser example_env example_db ''user@sgad.com'' ''correct'' = (Inr ?r, ?db')"
    by (simp add: example_defs login_defs login_principal_of_def)
  have v: "verifyToken example_env example_db example_token = Inr ?r'"
    by (simp add: example_defs verify_defs principal_of_def)
  have f: "refreshToken example_env example_db example_token = Inr ?r''"
    by (simp add: example_defs refresh_defs)
  have n: "JStr (password_hash example_user) \<notin> snd ` set (login_principal_of example_user)"
    by (simp add: example_user_def login_principal_of_def)
  from no_password_hash_in_output
         [of example_env example_db "''user@sgad.com''" "''correct''" ?r ?db'
             "''redacted''" example_token ?r' ?r'']
       l v f n
  show ?thesis by (simp add: example_env_def)
qed

end
